theory Spec2Isabelle
  imports Main
begin

section \<open>The theme controller of \<^verbatim>\<open>src/contexts/theme.tsx\<close>\<close>

subsection \<open>Values and state\<close>

text \<open>
  The TypeScript types \<^verbatim>\<open>DisplayTheme\<close> and \<^verbatim>\<open>ActualTheme\<close> are erased when the
  program runs: the two fields of the state hold \<^verbatim>\<open>null\<close> (their initial value, line 27),
  whatever string \<^verbatim>\<open>localStorage.getItem\<close> returned (line 62, cast without a check), or
  an element of the order list (line 42), which JavaScript reads as \<^verbatim>\<open>undefined\<close> when
  the index is out of range. The model keeps the three kinds of value apart.
\<close>

datatype jsval = Null | Undefined | Str string

text \<open>The string a value is turned into when it is stored (\<^verbatim>\<open>setItem\<close> stores strings).\<close>

fun toString :: "jsval \<Rightarrow> string" where
  "toString Null = ''null''"
| "toString Undefined = ''undefined''"
| "toString (Str s) = s"

record ThemeState =
  displayTheme :: jsval
  actualTheme :: jsval

text \<open>A decoded clip, named by the path it was loaded from; the controller never looks inside.\<close>

datatype AudioBuffer = AudioBuffer string

record AudioRef =
  switchOn :: "AudioBuffer option"
  switchOff :: "AudioBuffer option"

text \<open>
  What the controller does to its surroundings, in the order of the calls: the trace is
  what a claim about the order of the side effects is read from.
\<close>

datatype effect =
    SetState ThemeState
  | SetItem string string
  | Play AudioBuffer
  | LoadSound string
  | ClassAdd string
  | ClassRemove string

text \<open>
  Everything the component reads and writes: its React state, the audio ref, the browser's
  \<^verbatim>\<open>localStorage\<close>, the answer of \<^verbatim>\<open>matchMedia('(prefers-color-scheme: dark)').matches\<close>,
  the class list of the document element, and the trace of the calls made so far.
\<close>

record World =
  state :: ThemeState
  audioRef :: AudioRef
  localStorage :: "string \<rightharpoonup> string"
  prefersDark :: bool
  classList :: "string list"
  trace :: "effect list"

subsection \<open>The primitives the component calls\<close>

definition setState :: "ThemeState \<Rightarrow> World \<Rightarrow> World" where
  "setState s w = w\<lparr>state := s, trace := trace w @ [SetState s]\<rparr>"

definition localStorage_getItem :: "string \<Rightarrow> World \<Rightarrow> jsval" where
  "localStorage_getItem k w = (case localStorage w k of None \<Rightarrow> Null | Some v \<Rightarrow> Str v)"

definition localStorage_setItem :: "string \<Rightarrow> jsval \<Rightarrow> World \<Rightarrow> World" where
  "localStorage_setItem k v w =
     w\<lparr>localStorage := (localStorage w)(k \<mapsto> toString v),
       trace := trace w @ [SetItem k (toString v)]\<rparr>"

text \<open>
  Modelled from the spec: \<^verbatim>\<open>lib/SoundManager\<close> is imported (line 3) and is not among the
  sources; the spec treats it as an opaque capability that decodes and plays a short clip.
  Playing and starting a load are recorded in the trace and change nothing else.
\<close>

definition SoundManager_play :: "AudioBuffer \<Rightarrow> World \<Rightarrow> World" where
  "SoundManager_play b w = w\<lparr>trace := trace w @ [Play b]\<rparr>"

definition SoundManager_loadSound :: "string \<Rightarrow> World \<Rightarrow> World" where
  "SoundManager_loadSound path w = w\<lparr>trace := trace w @ [LoadSound path]\<rparr>"

text \<open>The callbacks of the two loads (lines 55 to 60), run whenever a load resolves.\<close>

definition switchOn_loaded :: "AudioBuffer \<Rightarrow> World \<Rightarrow> World" where
  "switchOn_loaded buffer w = w\<lparr>audioRef := (audioRef w)\<lparr>switchOn := Some buffer\<rparr>\<rparr>"

definition switchOff_loaded :: "AudioBuffer \<Rightarrow> World \<Rightarrow> World" where
  "switchOff_loaded buffer w = w\<lparr>audioRef := (audioRef w)\<lparr>switchOff := Some buffer\<rparr>\<rparr>"

text \<open>\<^verbatim>\<open>classList\<close> is an ordered set of tokens.\<close>

definition classList_add :: "string \<Rightarrow> World \<Rightarrow> World" where
  "classList_add c w =
     w\<lparr>classList := (if c \<in> set (classList w) then classList w else classList w @ [c]),
       trace := trace w @ [ClassAdd c]\<rparr>"

definition classList_remove :: "string \<Rightarrow> World \<Rightarrow> World" where
  "classList_remove c w =
     w\<lparr>classList := filter (\<lambda>x. x \<noteq> c) (classList w),
       trace := trace w @ [ClassRemove c]\<rparr>"

text \<open>\<^verbatim>\<open>Array.prototype.findIndex\<close>: the first index whose element passes, else \<open>-1\<close>.\<close>

fun findIndex :: "('a \<Rightarrow> bool) \<Rightarrow> 'a list \<Rightarrow> int" where
  "findIndex P [] = - 1"
| "findIndex P (x # xs) =
     (if P x then 0 else (let i = findIndex P xs in if i = - 1 then - 1 else i + 1))"

text \<open>
  JavaScript's \<^verbatim>\<open>%\<close> on integers takes the sign of the dividend. (For a zero divisor
  JavaScript gives NaN; the only divisor in this program is the length 3.)
\<close>

definition js_rem :: "int \<Rightarrow> int \<Rightarrow> int" where
  "js_rem a b = sgn a * (\<bar>a\<bar> mod \<bar>b\<bar>)"

text \<open>Reading an array at an index: \<^verbatim>\<open>undefined\<close> out of range.\<close>

definition array_index :: "string list \<Rightarrow> int \<Rightarrow> jsval" where
  "array_index xs i = (if 0 \<le> i \<and> i < int (length xs) then Str (xs ! nat i) else Undefined)"

subsection \<open>The component\<close>

definition DISPLAY_THEMES_ORDER :: "string list" where
  "DISPLAY_THEMES_ORDER = [''light'', ''dark'', ''system'']"

text \<open>Lines 27 and 28: the state and the audio ref of a freshly mounted provider.\<close>

definition initialState :: ThemeState where
  "initialState = \<lparr>displayTheme = Null, actualTheme = Null\<rparr>"

definition initialAudioRef :: AudioRef where
  "initialAudioRef = \<lparr>switchOn = None, switchOff = None\<rparr>"

text \<open>Lines 30 to 38.\<close>

definition getActualTheme :: "jsval \<Rightarrow> World \<Rightarrow> jsval" where
  "getActualTheme theme w =
     (if theme \<noteq> Str ''system'' then theme
      else if prefersDark w then Str ''dark''
      else Str ''light'')"

text \<open>
  Lines 41 and 42, the step of the cycle: the index of the current preference in the
  order list, plus one, modulo the length of the list.
\<close>

definition cycle :: "jsval \<Rightarrow> jsval" where
  "cycle current =
     (let currentIndex = findIndex (\<lambda>theme. Str theme = current) DISPLAY_THEMES_ORDER
      in array_index DISPLAY_THEMES_ORDER
           (js_rem (currentIndex + 1) (int (length DISPLAY_THEMES_ORDER))))"

text \<open>Lines 40 to 52.\<close>

definition switchTheme :: "World \<Rightarrow> World" where
  "switchTheme w =
     (let displayTheme' = cycle (displayTheme (state w));
          actualTheme' = getActualTheme displayTheme' w;
          w1 = setState ((state w)\<lparr>displayTheme := displayTheme', actualTheme := actualTheme'\<rparr>) w;
          w2 = localStorage_setItem ''theme'' displayTheme' w1
      in if actualTheme' = Str ''light'' \<and> switchOn (audioRef w2) \<noteq> None
         then SoundManager_play (the (switchOn (audioRef w2))) w2
         else if actualTheme' = Str ''dark'' \<and> switchOff (audioRef w2) \<noteq> None
         then SoundManager_play (the (switchOff (audioRef w2))) w2
         else w2)"

text \<open>Lines 54 to 69, the effect run once when the provider mounts.\<close>

definition initialize :: "World \<Rightarrow> World" where
  "initialize w =
     (let w1 = SoundManager_loadSound ''/sounds/switch-on.mp3'' w;
          w2 = SoundManager_loadSound ''/sounds/switch-off.mp3'' w1;
          theme = localStorage_getItem ''theme'' w2;
          actualTheme' = getActualTheme theme w2
      in setState ((state w2)\<lparr>displayTheme := theme, actualTheme := actualTheme'\<rparr>) w2)"









text \<open>Lines 114 to 127, the inline script that runs before hydration.\<close>

definition bootstrap :: "World \<Rightarrow> World" where
  "bootstrap w =
     (let currentTheme = localStorage_getItem ''theme'' w
      in if currentTheme = Str ''dark'' then classList_add ''dark'' w
         else if currentTheme = Str ''light'' then classList_remove ''dark'' w
         else if prefersDark w
         then localStorage_setItem ''theme'' (Str ''system'') (classList_add ''dark'' w)
         else localStorage_setItem ''theme'' (Str ''system'') (classList_remove ''dark'' w))"

text \<open>
  Lines 13 to 16, 23, 95 to 98 and 135 to 141: the value the provider hands down, the
  context with its default \<^verbatim>\<open>undefined\<close>, and the hook. \<^verbatim>\<open>useContext\<close> gives the value
  of the enclosing provider, or the default where there is none.
\<close>

record ThemeValue =
  value_displayTheme :: jsval
  value_switchTheme :: "World \<Rightarrow> World"

datatype error = Error string

definition providerValue :: "World \<Rightarrow> ThemeValue" where
  "providerValue w =
     \<lparr>value_displayTheme = displayTheme (state w), value_switchTheme = switchTheme\<rparr>"

definition ThemeContext_default :: "ThemeValue option" where
  "ThemeContext_default = None"

definition useContext :: "World option \<Rightarrow> ThemeValue option" where
  "useContext provider =
     (case provider of None \<Rightarrow> ThemeContext_default | Some w \<Rightarrow> Some (providerValue w))"

definition useTheme :: "World option \<Rightarrow> error + ThemeValue" where
  "useTheme provider =
     (case useContext provider of
        None \<Rightarrow> Inl (Error ''useTheme must be used within a ThemeProvider'')
      | Some context \<Rightarrow> Inr context)"

subsection \<open>Concrete sessions\<close>

text \<open>
  A page session with the given state, audio ref, stored theme and operating-system
  signal, nothing else stored, no class on the document element and nothing done yet.
  The theorems below are evaluated on such sessions.
\<close>

definition session :: "ThemeState \<Rightarrow> AudioRef \<Rightarrow> string option \<Rightarrow> bool \<Rightarrow> World" where
  "session s a stored dark =
     \<lparr>state = s, audioRef = a,
      localStorage = (\<lambda>k. if k = ''theme'' then stored else None),
      prefersDark = dark, classList = [], trace = []\<rparr>"

text \<open>The audio ref once both loads of lines 55 to 60 have resolved.\<close>

definition loadedAudioRef :: AudioRef where
  "loadedAudioRef =
     \<lparr>switchOn = Some (AudioBuffer ''/sounds/switch-on.mp3''),
      switchOff = Some (AudioBuffer ''/sounds/switch-off.mp3'')\<rparr>"

text \<open>
  The calls to \<^verbatim>\<open>SoundManager.play\<close> that lines 47 to 51 make for a resolved theme and
  an audio ref, as a list of at most one effect: the closed form used to unfold
  \<open>switchTheme\<close>.
\<close>

definition cueFor :: "jsval \<Rightarrow> AudioRef \<Rightarrow> effect list" where
  "cueFor actual a =
     (if actual = Str ''light'' then (case switchOn a of None \<Rightarrow> [] | Some b \<Rightarrow> [Play b])
      else if actual = Str ''dark'' then (case switchOff a of None \<Rightarrow> [] | Some b \<Rightarrow> [Play b])
      else [])"

section \<open>Properties\<close>

subsection \<open>The cycle and the closed forms of the operations\<close>

lemma cycle_light: "cycle (Str ''light'') = Str ''dark''"
  by (simp add: cycle_def DISPLAY_THEMES_ORDER_def array_index_def js_rem_def)

lemma cycle_dark: "cycle (Str ''dark'') = Str ''system''"
  by (simp add: cycle_def DISPLAY_THEMES_ORDER_def array_index_def js_rem_def)

lemma cycle_system: "cycle (Str ''system'') = Str ''light''"
  by (simp add: cycle_def DISPLAY_THEMES_ORDER_def array_index_def js_rem_def)

text \<open>A value that is not in the order list is not found: index \<open>-1\<close>, so the step gives index 0.\<close>

lemma cycle_other:
  "p \<noteq> Str ''light'' \<Longrightarrow> p \<noteq> Str ''dark'' \<Longrightarrow> p \<noteq> Str ''system'' \<Longrightarrow> cycle p = Str ''light''"
  by (auto simp add: cycle_def DISPLAY_THEMES_ORDER_def array_index_def js_rem_def)

lemma cycle_cases:
  "cycle p = Str ''light'' \<or> cycle p = Str ''dark'' \<or> cycle p = Str ''system''"
  using cycle_light cycle_dark cycle_system cycle_other by metis

lemma switchTheme_unfolded:
  "switchTheme w =
     w\<lparr>state := \<lparr>displayTheme = cycle (displayTheme (state w)),
                  actualTheme = getActualTheme (cycle (displayTheme (state w))) w\<rparr>,
       localStorage := (localStorage w)(''theme'' \<mapsto> toString (cycle (displayTheme (state w)))),
       trace := trace w @
         [SetState \<lparr>displayTheme = cycle (displayTheme (state w)),
                    actualTheme = getActualTheme (cycle (displayTheme (state w))) w\<rparr>,
          SetItem ''theme'' (toString (cycle (displayTheme (state w))))] @
         cueFor (getActualTheme (cycle (displayTheme (state w))) w) (audioRef w)\<rparr>"
  by (cases "switchOn (audioRef w)"; cases "switchOff (audioRef w)")
     (simp_all add: switchTheme_def Let_def setState_def localStorage_setItem_def
       SoundManager_play_def cueFor_def)

lemma initialize_unfolded:
  "initialize w =
     w\<lparr>state := \<lparr>displayTheme = localStorage_getItem ''theme'' w,
                  actualTheme = getActualTheme (localStorage_getItem ''theme'' w) w\<rparr>,
       trace := trace w @
         [LoadSound ''/sounds/switch-on.mp3'', LoadSound ''/sounds/switch-off.mp3'',
          SetState \<lparr>displayTheme = localStorage_getItem ''theme'' w,
                    actualTheme = getActualTheme (localStorage_getItem ''theme'' w) w\<rparr>]\<rparr>"
  by (simp add: initialize_def Let_def setState_def SoundManager_loadSound_def
      localStorage_getItem_def getActualTheme_def)

subsection \<open>Manual switch from a known preference\<close>

text \<open>
  Claim C1. For a preference \<open>p\<close> among light, dark and system, \<open>switchTheme\<close> moves the
  preference on to the next of the order light, dark, system, light; sets the actual theme
  to what that next preference resolves to; stores the next preference under the key
  \<open>theme\<close>; and plays the switch-on clip when the new actual theme is light and the clip is
  loaded, the switch-off clip when it is dark and that clip is loaded. The three calls are
  made in this order: state update, store, play. Nothing else of the session changes.
\<close>

theorem switchTheme_known_preference:
  assumes "displayTheme (state w) = Str p"
    and "p \<in> {''light'', ''dark'', ''system''}"
  shows
    "let next = (if p = ''light'' then ''dark'' else if p = ''dark'' then ''system'' else ''light'');
         nextActual = (if next = ''system'' then (if prefersDark w then ''dark'' else ''light'') else next);
         cue = (if nextActual = ''light''
                then (case switchOn (audioRef w) of None \<Rightarrow> [] | Some b \<Rightarrow> [Play b])
                else if nextActual = ''dark''
                then (case switchOff (audioRef w) of None \<Rightarrow> [] | Some b \<Rightarrow> [Play b])
                else [])
     in cycle (Str p) = Str next \<and>
        getActualTheme (Str next) w = Str nextActual \<and>
        switchTheme w =
          w\<lparr>state := \<lparr>displayTheme = Str next, actualTheme = Str nextActual\<rparr>,
            localStorage := (localStorage w)(''theme'' \<mapsto> next),
            trace := trace w @
              [SetState \<lparr>displayTheme = Str next, actualTheme = Str nextActual\<rparr>,
               SetItem ''theme'' next] @ cue\<rparr>"
proof -
  from assms(2) consider "p = ''light''" | "p = ''dark''" | "p = ''system''"
    by auto
  then show ?thesis
  proof cases
    case 1
    then show ?thesis
      using assms(1)
      by (simp add: switchTheme_unfolded cycle_light getActualTheme_def cueFor_def)
  next
    case 2
    then show ?thesis
      using assms(1)
      by (simp add: switchTheme_unfolded cycle_dark getActualTheme_def cueFor_def)
  next
    case 3
    then show ?thesis
      using assms(1)
      by (simp add: switchTheme_unfolded cycle_system getActualTheme_def cueFor_def)
  qed
qed

text \<open>
  The scenario of the specification: from light, with both clips loaded, the preference and
  the actual theme become dark, \<open>dark\<close> is stored and the switch-off clip plays last.
\<close>

theorem switchTheme_known_preference_witness:
  "displayTheme (state (session \<lparr>displayTheme = Str ''light'', actualTheme = Str ''light''\<rparr>
       loadedAudioRef (Some ''light'') False)) = Str ''light'' \<and>
   ''light'' \<in> {''light'', ''dark'', ''system''} \<and>
   state (switchTheme (session \<lparr>displayTheme = Str ''light'', actualTheme = Str ''light''\<rparr>
       loadedAudioRef (Some ''light'') False))
     = \<lparr>displayTheme = Str ''dark'', actualTheme = Str ''dark''\<rparr> \<and>
   localStorage (switchTheme (session \<lparr>displayTheme = Str ''light'', actualTheme = Str ''light''\<rparr>
       loadedAudioRef (Some ''light'') False)) ''theme'' = Some ''dark'' \<and>
   trace (switchTheme (session \<lparr>displayTheme = Str ''light'', actualTheme = Str ''light''\<rparr>
       loadedAudioRef (Some ''light'') False))
     = [SetState \<lparr>displayTheme = Str ''dark'', actualTheme = Str ''dark''\<rparr>,
        SetItem ''theme'' ''dark'',
        Play (AudioBuffer ''/sounds/switch-off.mp3'')]"
  using switchTheme_known_preference
    [of "session \<lparr>displayTheme = Str ''light'', actualTheme = Str ''light''\<rparr>
           loadedAudioRef (Some ''light'') False" "''light''"]
  by (simp add: session_def loadedAudioRef_def Let_def)

subsection \<open>Initialisation when nothing is stored\<close>

text \<open>
  The claim that an absent stored preference is resolved as if it were \<open>system\<close> fails:
  with nothing stored and an operating system that prefers dark, \<open>initialize\<close> leaves
  the actual theme \<^verbatim>\<open>null\<close>, not dark. \<open>getActualTheme\<close> returns its argument whenever it
  is not the string \<open>system\<close> (line 31), and \<^verbatim>\<open>null\<close> is not.
\<close>

theorem initialize_absent_counterexample:
  "localStorage (session initialState initialAudioRef None True) ''theme'' = None \<and>
   prefersDark (session initialState initialAudioRef None True) \<and>
   actualTheme (state (initialize (session initialState initialAudioRef None True))) = Null \<and>
   actualTheme (state (initialize (session initialState initialAudioRef None True))) \<noteq> Str ''dark''"
  by (simp add: initialize_unfolded session_def localStorage_getItem_def getActualTheme_def)

text \<open>
  Claim C2, as the code has it. When nothing is stored at the time \<open>initialize\<close> reads,
  both the preference and the actual theme are set to \<^verbatim>\<open>null\<close>, whatever the operating
  system prefers; the actual theme follows the operating system's signal (dark when it
  prefers dark, light otherwise) when the stored value is \<open>system\<close>, which is what the
  inline script of lines 114 to 127 stores when it finds nothing. In every case
  \<open>initialize\<close> leaves the storage as it is: it starts the two loads and updates the state,
  and does nothing else.
\<close>

theorem initialize_absent_or_system:
  shows "(localStorage w ''theme'' = None \<longrightarrow>
            state (initialize w) = \<lparr>displayTheme = Null, actualTheme = Null\<rparr>) \<and>
         (localStorage w ''theme'' = Some ''system'' \<longrightarrow>
            state (initialize w) =
              \<lparr>displayTheme = Str ''system'',
               actualTheme = (if prefersDark w then Str ''dark'' else Str ''light'')\<rparr>) \<and>
         localStorage (initialize w) = localStorage w \<and>
         trace (initialize w) =
           trace w @ [LoadSound ''/sounds/switch-on.mp3'', LoadSound ''/sounds/switch-off.mp3'',
                      SetState (state (initialize w))]"
  by (simp add: initialize_unfolded localStorage_getItem_def getActualTheme_def)

text \<open>
  Nothing stored, dark preferred: both fields \<^verbatim>\<open>null\<close> and still nothing stored. With
  \<open>system\<close> stored and dark preferred: the actual theme is dark.
\<close>

theorem initialize_absent_or_system_witness:
  "localStorage (session initialState initialAudioRef None True) ''theme'' = None \<and>
   state (initialize (session initialState initialAudioRef None True))
     = \<lparr>displayTheme = Null, actualTheme = Null\<rparr> \<and>
   localStorage (initialize (session initialState initialAudioRef None True)) ''theme'' = None \<and>
   localStorage (session initialState initialAudioRef (Some ''system'') True) ''theme''
     = Some ''system'' \<and>
   state (initialize (session initialState initialAudioRef (Some ''system'') True))
     = \<lparr>displayTheme = Str ''system'', actualTheme = Str ''dark''\<rparr> \<and>
   trace (initialize (session initialState initialAudioRef (Some ''system'') True))
     = [LoadSound ''/sounds/switch-on.mp3'', LoadSound ''/sounds/switch-off.mp3'',
        SetState \<lparr>displayTheme = Str ''system'', actualTheme = Str ''dark''\<rparr>]"
  using initialize_absent_or_system [of "session initialState initialAudioRef None True"]
    initialize_absent_or_system [of "session initialState initialAudioRef (Some ''system'') True"]
  by (simp add: session_def)

subsection \<open>The clip played when the actual theme does not change\<close>

text \<open>
  The claim that no clip plays when the preference changes and the actual theme does not
  fails: from dark to system, while the operating system prefers dark and the switch-off
  clip is loaded, the actual theme stays dark and the switch-off clip is played.
\<close>

theorem switchTheme_same_actual_counterexample:
  "actualTheme (state (switchTheme (session \<lparr>displayTheme = Str ''dark'', actualTheme = Str ''dark''\<rparr>
       loadedAudioRef (Some ''dark'') True)))
     = actualTheme (state (session \<lparr>displayTheme = Str ''dark'', actualTheme = Str ''dark''\<rparr>
       loadedAudioRef (Some ''dark'') True)) \<and>
   displayTheme (state (switchTheme (session \<lparr>displayTheme = Str ''dark'', actualTheme = Str ''dark''\<rparr>
       loadedAudioRef (Some ''dark'') True))) = Str ''system'' \<and>
   displayTheme (state (session \<lparr>displayTheme = Str ''dark'', actualTheme = Str ''dark''\<rparr>
       loadedAudioRef (Some ''dark'') True)) = Str ''dark'' \<and>
   trace (switchTheme (session \<lparr>displayTheme = Str ''dark'', actualTheme = Str ''dark''\<rparr>
       loadedAudioRef (Some ''dark'') True))
     = [SetState \<lparr>displayTheme = Str ''system'', actualTheme = Str ''dark''\<rparr>,
        SetItem ''theme'' ''system'',
        Play (AudioBuffer ''/sounds/switch-off.mp3'')]"
  by (simp add: switchTheme_unfolded cycle_dark getActualTheme_def cueFor_def session_def
      loadedAudioRef_def)

text \<open>
  Claim C3, as the code has it. In a manual switch that changes the preference and leaves
  the actual theme as it was, the clip is chosen by the resulting actual theme alone, as in
  every other switch: the switch-on clip when it is light, the switch-off clip when it is
  dark (it is one of the two), played after the state update and the store whenever that
  clip is loaded. No clip plays only when the clip for the resulting theme is not loaded.
\<close>

theorem switchTheme_same_actual_cue:
  assumes "actualTheme (state (switchTheme w)) = actualTheme (state w)"
    and "displayTheme (state (switchTheme w)) \<noteq> displayTheme (state w)"
  shows "trace (switchTheme w) =
           trace w @
           [SetState (state (switchTheme w)),
            SetItem ''theme'' (toString (displayTheme (state (switchTheme w))))] @
           (if actualTheme (state (switchTheme w)) = Str ''light''
            then (case switchOn (audioRef w) of None \<Rightarrow> [] | Some b \<Rightarrow> [Play b])
            else (case switchOff (audioRef w) of None \<Rightarrow> [] | Some b \<Rightarrow> [Play b])) \<and>
         actualTheme (state (switchTheme w)) \<in> {Str ''light'', Str ''dark''}"
proof -
  let ?a = "getActualTheme (cycle (displayTheme (state w))) w"
  have a: "actualTheme (state w) = ?a"
    using assms(1) by (simp add: switchTheme_unfolded)
  have "?a = Str ''light'' \<or> ?a = Str ''dark''"
    using cycle_cases [of "displayTheme (state w)"] by (auto simp add: getActualTheme_def)
  then show ?thesis
    by (auto simp add: switchTheme_unfolded a cueFor_def)
qed

text \<open>
  From system to light while the operating system prefers light, so that the actual theme
  is light before and after: the switch-on clip is played.
\<close>

theorem switchTheme_same_actual_cue_witness:
  "actualTheme (state (switchTheme (session \<lparr>displayTheme = Str ''system'', actualTheme = Str ''light''\<rparr>
       loadedAudioRef (Some ''system'') False)))
     = actualTheme (state (session \<lparr>displayTheme = Str ''system'', actualTheme = Str ''light''\<rparr>
       loadedAudioRef (Some ''system'') False)) \<and>
   displayTheme (state (switchTheme (session \<lparr>displayTheme = Str ''system'', actualTheme = Str ''light''\<rparr>
       loadedAudioRef (Some ''system'') False)))
     \<noteq> displayTheme (state (session \<lparr>displayTheme = Str ''system'', actualTheme = Str ''light''\<rparr>
       loadedAudioRef (Some ''system'') False)) \<and>
   trace (switchTheme (session \<lparr>displayTheme = Str ''system'', actualTheme = Str ''light''\<rparr>
       loadedAudioRef (Some ''system'') False))
     = [SetState \<lparr>displayTheme = Str ''light'', actualTheme = Str ''light''\<rparr>,
        SetItem ''theme'' ''light'',
        Play (AudioBuffer ''/sounds/switch-on.mp3'')]"
proof -
  let ?w = "session \<lparr>displayTheme = Str ''system'', actualTheme = Str ''light''\<rparr>
              loadedAudioRef (Some ''system'') False"
  have s: "state (switchTheme ?w) = \<lparr>displayTheme = Str ''light'', actualTheme = Str ''light''\<rparr>"
    by (simp add: switchTheme_unfolded cycle_system getActualTheme_def session_def)
  have h1: "actualTheme (state (switchTheme ?w)) = actualTheme (state ?w)"
    by (simp add: s) (simp add: session_def)
  have h2: "displayTheme (state (switchTheme ?w)) \<noteq> displayTheme (state ?w)"
    by (simp add: s) (simp add: session_def)
  show ?thesis
    using h1 h2 switchTheme_same_actual_cue [OF h1 h2]
    by (simp add: s) (simp add: session_def loadedAudioRef_def)
qed

subsection \<open>The script that runs before hydration\<close>

text \<open>
  Claim C4. The inline script follows the decision table. Stored \<open>dark\<close>: the class
  \<open>dark\<close> is on the document element afterwards and nothing is stored. Stored \<open>light\<close>:
  the class is off and nothing is stored. Anything else, or nothing, stored: the class is
  on when the operating system prefers dark and off when it does not, and \<open>system\<close> is
  stored under \<open>theme\<close> after the class has been set. No other class and no part of the
  React state is touched.
\<close>

theorem bootstrap_decision_table:
  shows "(localStorage w ''theme'' = Some ''dark'' \<longrightarrow>
            ''dark'' \<in> set (classList (bootstrap w)) \<and>
            localStorage (bootstrap w) = localStorage w \<and>
            trace (bootstrap w) = trace w @ [ClassAdd ''dark'']) \<and>
         (localStorage w ''theme'' = Some ''light'' \<longrightarrow>
            ''dark'' \<notin> set (classList (bootstrap w)) \<and>
            localStorage (bootstrap w) = localStorage w \<and>
            trace (bootstrap w) = trace w @ [ClassRemove ''dark'']) \<and>
         (localStorage w ''theme'' \<noteq> Some ''dark'' \<and> localStorage w ''theme'' \<noteq> Some ''light'' \<and>
          prefersDark w \<longrightarrow>
            ''dark'' \<in> set (classList (bootstrap w)) \<and>
            localStorage (bootstrap w) = (localStorage w)(''theme'' \<mapsto> ''system'') \<and>
            trace (bootstrap w) = trace w @ [ClassAdd ''dark'', SetItem ''theme'' ''system'']) \<and>
         (localStorage w ''theme'' \<noteq> Some ''dark'' \<and> localStorage w ''theme'' \<noteq> Some ''light'' \<and>
          \<not> prefersDark w \<longrightarrow>
            ''dark'' \<notin> set (classList (bootstrap w)) \<and>
            localStorage (bootstrap w) = (localStorage w)(''theme'' \<mapsto> ''system'') \<and>
            trace (bootstrap w) = trace w @ [ClassRemove ''dark'', SetItem ''theme'' ''system'']) \<and>
         set (classList (bootstrap w)) - {''dark''} = set (classList w) - {''dark''} \<and>
         state (bootstrap w) = state w"
proof -
  have getItem: "localStorage_getItem ''theme'' w = Str v \<longleftrightarrow> localStorage w ''theme'' = Some v"
    for v
    by (simp add: localStorage_getItem_def split: option.splits)
  show ?thesis
    by (auto simp add: bootstrap_def Let_def getItem classList_add_def classList_remove_def
        localStorage_setItem_def)
qed

text \<open>
  The four rows on concrete sessions: stored \<open>dark\<close>, stored \<open>light\<close>, nothing stored
  with dark preferred, and an unknown stored string with light preferred.
\<close>

theorem bootstrap_decision_table_witness:
  "localStorage (session initialState initialAudioRef (Some ''dark'') False) ''theme'' = Some ''dark'' \<and>
   classList (bootstrap (session initialState initialAudioRef (Some ''dark'') False)) = [''dark''] \<and>
   trace (bootstrap (session initialState initialAudioRef (Some ''dark'') False)) = [ClassAdd ''dark''] \<and>
   localStorage (session initialState initialAudioRef (Some ''light'') True) ''theme'' = Some ''light'' \<and>
   classList (bootstrap (session initialState initialAudioRef (Some ''light'') True)) = [] \<and>
   trace (bootstrap (session initialState initialAudioRef (Some ''light'') True)) = [ClassRemove ''dark''] \<and>
   localStorage (session initialState initialAudioRef None True) ''theme'' = None \<and>
   prefersDark (session initialState initialAudioRef None True) \<and>
   localStorage (bootstrap (session initialState initialAudioRef None True)) ''theme'' = Some ''system'' \<and>
   trace (bootstrap (session initialState initialAudioRef None True))
     = [ClassAdd ''dark'', SetItem ''theme'' ''system''] \<and>
   localStorage (session initialState initialAudioRef (Some ''sepia'') False) ''theme'' = Some ''sepia'' \<and>
   \<not> prefersDark (session initialState initialAudioRef (Some ''sepia'') False) \<and>
   localStorage (bootstrap (session initialState initialAudioRef (Some ''sepia'') False)) ''theme''
     = Some ''system'' \<and>
   trace (bootstrap (session initialState initialAudioRef (Some ''sepia'') False))
     = [ClassRemove ''dark'', SetItem ''theme'' ''system'']"
  using bootstrap_decision_table [of "session initialState initialAudioRef (Some ''dark'') False"]
    bootstrap_decision_table [of "session initialState initialAudioRef (Some ''light'') True"]
    bootstrap_decision_table [of "session initialState initialAudioRef None True"]
    bootstrap_decision_table [of "session initialState initialAudioRef (Some ''sepia'') False"]
  by (simp add: session_def bootstrap_def Let_def localStorage_getItem_def classList_add_def
      classList_remove_def localStorage_setItem_def)

subsection \<open>Notifications of the operating system\<close>





subsection \<open>Resolution of a preference\<close>

text \<open>
  Claim C6. \<open>getActualTheme\<close> resolves light to light and dark to dark whatever the
  operating system says, and \<open>system\<close> to the operating system's signal: dark when it
  prefers dark, light otherwise. Its result depends on nothing but the preference and that
  signal: two sessions with the same signal resolve every preference alike.
\<close>

theorem getActualTheme_resolve:
  "getActualTheme (Str ''light'') w = Str ''light'' \<and>
   getActualTheme (Str ''dark'') w = Str ''dark'' \<and>
   getActualTheme (Str ''system'') w = (if prefersDark w then Str ''dark'' else Str ''light'') \<and>
   getActualTheme p (w\<lparr>prefersDark := s\<rparr>) = getActualTheme p (w'\<lparr>prefersDark := s\<rparr>)"
  by (simp add: getActualTheme_def)

subsection \<open>The cycle\<close>

text \<open>
  Claim C7. On light, dark and system the step of the cycle is defined (never
  \<^verbatim>\<open>undefined\<close>, never \<^verbatim>\<open>null\<close>), stays among the three, and comes back to where it
  started after exactly three steps, not before. From any value \<open>q\<close> at all, one of the
  three included or not, the step lands on one of the three.
\<close>

theorem cycle_three:
  assumes "p \<in> {Str ''light'', Str ''dark'', Str ''system''}"
  shows "cycle (cycle (cycle p)) = p \<and>
         cycle p \<in> {Str ''light'', Str ''dark'', Str ''system''} \<and>
         cycle p \<noteq> p \<and> cycle (cycle p) \<noteq> p \<and>
         cycle p \<noteq> Undefined \<and> cycle p \<noteq> Null \<and>
         cycle q \<in> {Str ''light'', Str ''dark'', Str ''system''}"
  using assms cycle_cases [of q] by (auto simp add: cycle_light cycle_dark cycle_system)

text \<open>
  From light: dark, then system, then light again.
\<close>

theorem cycle_three_witness:
  "Str ''light'' \<in> {Str ''light'', Str ''dark'', Str ''system''} \<and>
   cycle (Str ''light'') = Str ''dark'' \<and>
   cycle (cycle (Str ''light'')) = Str ''system'' \<and>
   cycle (cycle (cycle (Str ''light''))) = Str ''light''"
  using cycle_three [of "Str ''light''"]
  by (simp add: cycle_light cycle_dark cycle_system)

subsection \<open>Manual switch before the preference is known\<close>

text \<open>
  Claim C8. While the preference is still \<^verbatim>\<open>null\<close>, \<open>findIndex\<close> finds nothing and
  returns \<open>-1\<close>, so the step lands on index 0 of the order list: \<open>switchTheme\<close> sets the
  preference and the actual theme to light, stores \<open>light\<close> under \<open>theme\<close>, and then plays
  the switch-on clip if it is loaded.
\<close>

theorem switchTheme_unset:
  assumes "displayTheme (state w) = Null"
  shows "findIndex (\<lambda>theme. Str theme = displayTheme (state w)) DISPLAY_THEMES_ORDER = - 1 \<and>
         switchTheme w =
           w\<lparr>state := \<lparr>displayTheme = Str ''light'', actualTheme = Str ''light''\<rparr>,
             localStorage := (localStorage w)(''theme'' \<mapsto> ''light''),
             trace := trace w @
               [SetState \<lparr>displayTheme = Str ''light'', actualTheme = Str ''light''\<rparr>,
                SetItem ''theme'' ''light''] @
               (case switchOn (audioRef w) of None \<Rightarrow> [] | Some b \<Rightarrow> [Play b])\<rparr>"
proof -
  have "cycle Null = Str ''light''"
    by (simp add: cycle_other)
  then show ?thesis
    using assms
    by (simp add: switchTheme_unfolded getActualTheme_def cueFor_def DISPLAY_THEMES_ORDER_def)
qed

text \<open>
  A freshly mounted provider with both clips loaded and nothing stored.
\<close>

theorem switchTheme_unset_witness:
  "displayTheme (state (session initialState loadedAudioRef None True)) = Null \<and>
   state (switchTheme (session initialState loadedAudioRef None True))
     = \<lparr>displayTheme = Str ''light'', actualTheme = Str ''light''\<rparr> \<and>
   localStorage (switchTheme (session initialState loadedAudioRef None True)) ''theme''
     = Some ''light'' \<and>
   trace (switchTheme (session initialState loadedAudioRef None True))
     = [SetState \<lparr>displayTheme = Str ''light'', actualTheme = Str ''light''\<rparr>,
        SetItem ''theme'' ''light'',
        Play (AudioBuffer ''/sounds/switch-on.mp3'')]"
  using switchTheme_unset [of "session initialState loadedAudioRef None True"]
  by (simp add: session_def initialState_def loadedAudioRef_def)

subsection \<open>The hook outside a provider\<close>

text \<open>
  Claim C9. Without an enclosing provider \<open>useTheme\<close> throws an error whose message
  says that it must be used within a ThemeProvider, and returns no value; inside a
  provider it returns the value of that provider.
\<close>

theorem useTheme_outside_provider:
  "useTheme None = Inl (Error ''useTheme must be used within a ThemeProvider'') \<and>
   (\<forall>v. useTheme None \<noteq> Inr v) \<and>
   (\<forall>w. useTheme (Some w) = Inr (providerValue w))"
  by (simp add: useTheme_def useContext_def ThemeContext_default_def)

subsection \<open>Initialisation does not validate the stored string\<close>

text \<open>
  Claim C10. \<open>initialize\<close> copies a stored string other than \<open>system\<close> as it is into
  both the preference and the actual theme, whether or not it is one of light and dark;
  with nothing stored the actual theme is \<^verbatim>\<open>null\<close>.
\<close>

theorem initialize_no_validation:
  shows "(localStorage w ''theme'' = Some s \<and> s \<noteq> ''system'' \<longrightarrow>
            state (initialize w) = \<lparr>displayTheme = Str s, actualTheme = Str s\<rparr>) \<and>
         (localStorage w ''theme'' = None \<longrightarrow> actualTheme (state (initialize w)) = Null)"
  by (simp add: initialize_unfolded localStorage_getItem_def getActualTheme_def)

text \<open>
  A stored \<open>sepia\<close> becomes the actual theme, outside light and dark; with nothing
  stored the actual theme is \<^verbatim>\<open>null\<close>.
\<close>

theorem initialize_no_validation_witness:
  "localStorage (session initialState initialAudioRef (Some ''sepia'') True) ''theme'' = Some ''sepia'' \<and>
   ''sepia'' \<noteq> ''system'' \<and>
   state (initialize (session initialState initialAudioRef (Some ''sepia'') True))
     = \<lparr>displayTheme = Str ''sepia'', actualTheme = Str ''sepia''\<rparr> \<and>
   actualTheme (state (initialize (session initialState initialAudioRef (Some ''sepia'') True)))
     \<notin> {Str ''light'', Str ''dark''} \<and>
   localStorage (session initialState initialAudioRef None False) ''theme'' = None \<and>
   actualTheme (state (initialize (session initialState initialAudioRef None False))) = Null"
  using initialize_no_validation [of "session initialState initialAudioRef (Some ''sepia'') True" "''sepia''"]
    initialize_no_validation [of "session initialState initialAudioRef None False"]
  by (simp add: session_def)

end
